theory Spec2Isabelle
  imports Main "HOL-Library.Sublist"
begin

section \<open>The Slack connector of opsdroid\<close>

text \<open>
  A shallow embedding of \<^verbatim>\<open>src/opsdroid/connector/slack/connector.py\<close>: the class
  \<^verbatim>\<open>ConnectorSlack\<close> with its start-up handshake, its webhook handler, its user
  cache and its twelve outbound event handlers.

  The methods are \<^verbatim>\<open>async\<close>; each \<^verbatim>\<open>await\<close> is modelled as a call that
  completes before the next statement runs, which is what one coroutine observes of
  itself. Interleavings of several coroutines are outside this development.
\<close>

subsection \<open>Python strings\<close>

text \<open>
  A string is a \<^typ>\<open>char list\<close>. Every character the source inspects
  (\<^verbatim>\<open>< @ | > :\<close>, newline, \<^verbatim>\<open>A-Z\<close>, \<^verbatim>\<open>0-9\<close>) is ASCII, so reading a string as
  its UTF-8 bytes gives the same matches as reading it as code points.

  \<^verbatim>\<open>needle in hay\<close> on two strings is the substring test.
\<close>

fun str_contains :: "string \<Rightarrow> string \<Rightarrow> bool" where
  "str_contains needle [] = (needle = [])"
| "str_contains needle (c # t) = (prefix needle (c # t) \<or> str_contains needle t)"

text \<open>
  \<^verbatim>\<open>s.replace(old, new)\<close> replaces the non-overlapping occurrences of \<^verbatim>\<open>old\<close>,
  found from the left. With an empty \<^verbatim>\<open>old\<close> Python inserts \<^verbatim>\<open>new\<close> before every
  character and at the end.
\<close>

fun str_replace :: "string \<Rightarrow> string \<Rightarrow> string \<Rightarrow> string" where
  "str_replace [] new s = new @ concat (map (\<lambda>c. c # new) s)"
| "str_replace (a # old) new [] = []"
| "str_replace (a # old) new (c # t) =
     (if prefix (a # old) (c # t)
      then new @ str_replace (a # old) new (drop (length old) t)
      else c # str_replace (a # old) new t)"

subsection \<open>The mention pattern\<close>

text \<open>
  \<^verbatim>\<open>replace_usernames\<close> calls \<^verbatim>\<open>re.findall\<close> with a pattern that reads, once
  the backslashes that only quote a literal character are dropped,
  \<^verbatim>\<open><@([A-Z0-9]+)(?:[|].+)?>\<close>. The call returns, for every non-overlapping match
  found from the left, the text of group 1.

  A match at the head of a string reads \<^verbatim>\<open><@\<close>, then a run of \<^verbatim>\<open>[A-Z0-9]\<close>. The
  run is greedy, and giving a character back never helps: the character after a
  shorter run is one of \<^verbatim>\<open>[A-Z0-9]\<close>, which is neither \<^verbatim>\<open>|\<close> nor \<^verbatim>\<open>>\<close>. So group 1
  is the maximal run, and it must be non-empty. After it comes either \<^verbatim>\<open>>\<close> at
  once, or \<^verbatim>\<open>|\<close> followed by the greedy \<^verbatim>\<open>.+\<close> and a \<^verbatim>\<open>>\<close>. The dot does not match
  a newline, so \<^verbatim>\<open>.+\<close> stays on the line; it takes the whole rest of the line and
  backtracks to the last \<^verbatim>\<open>>\<close> of the line that leaves it at least one character.
\<close>

definition is_id_char :: "char \<Rightarrow> bool" where
  "is_id_char c = (c \<in> set ''ABCDEFGHIJKLMNOPQRSTUVWXYZ0123456789'')"

text \<open>
  \<open>hint_end t\<close>, for the text \<open>t\<close> after the \<^verbatim>\<open>|\<close>: how many characters of \<open>t\<close> the
  pattern \<^verbatim>\<open>.+>\<close> consumes, if it matches.
\<close>

definition hint_end :: "string \<Rightarrow> nat option" where
  "hint_end t =
     (let line = takeWhile (\<lambda>c. c \<noteq> CHR 0x0A) t;
          closing = filter (\<lambda>k. line ! k = CHR ''>'') [1..<length line]
      in if closing = [] then None else Some (Suc (last closing)))"

text \<open>
  \<open>match_mention s\<close>: the match of the pattern at the head of \<open>s\<close>, as group 1 and
  the text left after the match.
\<close>

definition match_mention :: "string \<Rightarrow> (string \<times> string) option" where
  "match_mention s =
     (if prefix ''<@'' s then
        (let userid = takeWhile is_id_char (drop 2 s);
             rest = dropWhile is_id_char (drop 2 s)
         in if userid = [] then None
            else (case rest of
                [] \<Rightarrow> None
              | c # t \<Rightarrow>
                  if c = CHR ''|'' then
                    (case hint_end t of
                       Some n \<Rightarrow> Some (userid, drop n t)
                     | None \<Rightarrow> None)
                  else if c = CHR ''>'' then Some (userid, t)
                  else None))
      else None)"

function findall_mentions :: "string \<Rightarrow> string list" where
  "findall_mentions [] = []"
| "findall_mentions (c # t) =
     (case match_mention (c # t) of
        Some (userid, rest) \<Rightarrow> userid # findall_mentions rest
      | None \<Rightarrow> findall_mentions t)"
  by pat_completeness auto
termination
proof (relation "measure length")
  show "wf (measure length)" by simp
next
  fix c :: char and t userid rest :: string and x2 :: "string \<times> string"
  assume m: "match_mention (c # t) = Some x2" and x2: "(userid, rest) = x2"
  have d: "length (dropWhile is_id_char (drop 2 (c # t))) \<le> length (drop 2 (c # t))"
    by (rule length_dropWhile_le)
  from m x2 have "length rest < length (dropWhile is_id_char (drop 2 (c # t)))"
    by (auto simp: match_mention_def Let_def split: if_splits list.splits option.splits)
  with d have "length rest < length (c # t)" by simp
  then show "(rest, c # t) \<in> measure length" by simp
next
  fix c :: char and t :: string
  show "(t, c # t) \<in> measure length" by simp
qed

subsection \<open>Python values\<close>

text \<open>
  The values that travel through the connector are decoded JSON: webhook payloads,
  the \<^verbatim>\<open>.data\<close> of a platform response, the parameters of a platform call. A
  \<^verbatim>\<open>dict\<close> with string keys is an association list, read with \<^const>\<open>map_of\<close>.
  No branch of the source looks at a number.
\<close>

datatype json =
    JNull
  | JBool bool
  | JNum int
  | JStr string
  | JList "json list"
  | JDict "(string \<times> json) list"

text \<open>
  The exceptions the modelled code can meet. \<open>SlackApiError\<close> carries the text
  \<^verbatim>\<open>str(error)\<close>; \<open>OtherError\<close> is an exception of any other class (a transport
  failure, a JSON decoding error, a failure of the host), with its text.
\<close>

datatype error =
    KeyError string
  | TypeError
  | AttributeError
  | SlackApiError string
  | OtherError string

text \<open>\<^verbatim>\<open>isinstance(x, dict)\<close>.\<close>

fun is_dict :: "json \<Rightarrow> bool" where
  "is_dict (JDict kvs) = True"
| "is_dict _ = False"

text \<open>
  \<^verbatim>\<open>key in x\<close> for a string \<^verbatim>\<open>key\<close>: a key of a dict, an element of a list, a
  substring of a string; \<^verbatim>\<open>None\<close>, a bool and a number are not iterable and raise
  \<^verbatim>\<open>TypeError\<close>.
\<close>

fun py_contains :: "string \<Rightarrow> json \<Rightarrow> error + bool" where
  "py_contains k (JDict kvs) = Inr (map_of kvs k \<noteq> None)"
| "py_contains k (JList xs) = Inr (JStr k \<in> set xs)"
| "py_contains k (JStr s) = Inr (str_contains k s)"
| "py_contains k _ = Inl TypeError"

text \<open>
  \<^verbatim>\<open>x[key]\<close> for a string \<^verbatim>\<open>key\<close>: the value of a dict, \<^verbatim>\<open>KeyError\<close> when the key
  is missing, \<^verbatim>\<open>TypeError\<close> on every other value (a list and a string want an
  integer index, the rest cannot be subscripted).
\<close>

fun py_getitem :: "json \<Rightarrow> string \<Rightarrow> error + json" where
  "py_getitem (JDict kvs) k =
     (case map_of kvs k of None \<Rightarrow> Inl (KeyError k) | Some v \<Rightarrow> Inr v)"
| "py_getitem _ k = Inl TypeError"

text \<open>An optional string as a value: \<^verbatim>\<open>None\<close> or the string.\<close>

definition of_opt :: "string option \<Rightarrow> json" where
  "of_opt x = (case x of None \<Rightarrow> JNull | Some s \<Rightarrow> JStr s)"

subsection \<open>Events\<close>

text \<open>
  The event classes are declared in \<^verbatim>\<open>opsdroid.events\<close> and
  \<^verbatim>\<open>opsdroid.connector.slack.events\<close>; the handlers fix which attributes they read.
  Of a linked event the handlers read the id (a Slack timestamp, or \<^verbatim>\<open>None\<close>) and
  the raw payload (a dict, or \<^verbatim>\<open>None\<close> when the event was built without one).
\<close>

record linked =
  event_id :: "string option"
  raw_event :: json

text \<open>
  The outgoing events, one constructor per class a handler is registered for, with the
  attributes that handler reads, in this order:
  \<^item> \<open>Message\<close>: text, target, linked event (or \<^verbatim>\<open>None\<close>);
  \<^item> \<open>EditedMessage\<close>: text, target, linked event (the timestamp itself);
  \<^item> \<open>Blocks\<close>: blocks, target;
  \<^item> \<open>EditedBlocks\<close>: blocks, target, linked event (the timestamp itself);
  \<^item> \<open>Reaction\<close>: emoji, target, linked event (or \<^verbatim>\<open>None\<close>);
  \<^item> \<open>NewRoom\<close>: name;
  \<^item> \<open>RoomName\<close>: name, target;
  \<^item> \<open>JoinRoom\<close>: target;
  \<^item> \<open>UserInvite\<close>: user id, target;
  \<^item> \<open>RoomDescription\<close>: description, target;
  \<^item> \<open>PinMessage\<close>, \<open>UnpinMessage\<close>: target, linked event (or \<^verbatim>\<open>None\<close>).
\<close>

datatype event =
    Message json json "linked option"
  | EditedMessage json json json
  | Blocks json json
  | EditedBlocks json json json
  | Reaction string json "linked option"
  | NewRoom json
  | RoomName json json
  | JoinRoom json
  | UserInvite json json
  | RoomDescription json json
  | PinMessage json "linked option"
  | UnpinMessage json "linked option"

text \<open>
  What the Event Creator hands back to the webhook handler, and what the handler
  hands on to \<^verbatim>\<open>opsdroid.parse\<close>: \<^verbatim>\<open>None\<close>, one event, a list of events, or an
  object that is neither a list nor an event. The handler never looks inside an
  inbound event, so its type is a parameter.
\<close>

datatype 'e pyobj = PyNone | PyEvent 'e | PyList "'e list" | PyOther

subsection \<open>Requests, responses and platform calls\<close>

text \<open>
  Of a request the handler reads the content type and one of two decoded bodies:
  \<open>form_payload\<close> is the outcome of
  \<^verbatim>\<open>json.loads((await request.post())["payload"])\<close>, \<open>json_body\<close> the outcome of
  \<^verbatim>\<open>await request.json()\<close>. Either can raise.
\<close>

record request =
  content_type :: string
  form_payload :: "error + json"
  json_body :: "error + json"

text \<open>
  \<open>JsonResponse d\<close> is \<^verbatim>\<open>aiohttp.web.json_response(d)\<close> (status 200, the body the
  JSON encoding of \<open>d\<close>); \<open>Response t n\<close> is
  \<^verbatim>\<open>aiohttp.web.Response(text=t, status=n)\<close>.
\<close>

datatype response = JsonResponse json | Response string nat

datatype verb = GET | POST

record call =
  operation :: string
  http_verb :: verb
  args :: "string \<rightharpoonup> json"

datatype level = DEBUG | INFO | WARNING | ERROR

subsection \<open>The connector and its surroundings\<close>

text \<open>The attributes \<^verbatim>\<open>__init__\<close> gives a \<^verbatim>\<open>ConnectorSlack\<close>.\<close>

record connector =
  name :: string
  default_target :: string
  icon_emoji :: string
  token :: string
  start_thread :: bool
  bot_name :: string
  auth_info :: json
  user_info :: json
  bot_id :: json
  known_users :: "string \<rightharpoonup> json"

text \<open>
  The collaborators of the connector, none of them in this file of the source: the
  platform client (\<open>web\<close>: the \<^verbatim>\<open>.data\<close> of the response to a call, or the
  exception the call raises), the host's router (\<open>add_post\<close>), the Event Creator
  (\<open>create_event\<close>), the host's event intake (\<open>parse\<close>) and the emoji library
  (\<open>demojize\<close>). They act on a world \<^typ>\<open>'w\<close> of their own, so the answer to a call
  may depend on everything that happened before it.

  The Event Creator is built with a reference to the connector. A call it makes back
  into the connector is an operation of the connector in its own right, and not a step
  of the webhook handler that awaits the Event Creator.
\<close>

record ('w, 'e) env =
  web :: "call \<Rightarrow> 'w \<Rightarrow> (error + json) \<times> 'w"
  add_post :: "string \<Rightarrow> 'w \<Rightarrow> error option \<times> 'w"
  create_event :: "json \<Rightarrow> 'w \<Rightarrow> (error + 'e pyobj) \<times> 'w"
  parse :: "'e pyobj \<Rightarrow> 'w \<Rightarrow> error option \<times> 'w"
  demojize :: "string \<Rightarrow> string"

text \<open>
  The state a method runs in: the connector, the world of the collaborators, and a
  record of what the connector asked of them, in order: the platform calls issued,
  the routes registered, the payloads given to the Event Creator, the arguments of
  the calls of \<^verbatim>\<open>opsdroid.parse\<close>, and the log lines (level and message template).
\<close>

record ('w, 'e) system =
  conn :: connector
  world :: 'w
  calls :: "call list"
  routes :: "string list"
  created :: "json list"
  forwarded :: "'e pyobj list"
  logged :: "(level \<times> string) list"

definition logger :: "level \<Rightarrow> string \<Rightarrow> ('w, 'e) system \<Rightarrow> ('w, 'e) system" where
  "logger lvl msg s = s\<lparr>logged := logged s @ [(lvl, msg)]\<rparr>"

text \<open>\<^verbatim>\<open>await self.slack_web_client.api_call(...)\<close>, with \<^verbatim>\<open>.data\<close> taken.\<close>

definition api_call ::
  "('w, 'e) env \<Rightarrow> call \<Rightarrow> ('w, 'e) system \<Rightarrow> (error + json) \<times> ('w, 'e) system" where
  "api_call env c s =
     (case web env c (world s) of
        (r, w) \<Rightarrow> (r, s\<lparr>world := w, calls := calls s @ [c]\<rparr>))"

text \<open>\<^verbatim>\<open>self.opsdroid.web_server.web_app.router.add_post(path, handler)\<close>.\<close>

definition register ::
  "('w, 'e) env \<Rightarrow> string \<Rightarrow> ('w, 'e) system \<Rightarrow> error option \<times> ('w, 'e) system" where
  "register env path s =
     (case add_post env path (world s) of
        (Some e, w) \<Rightarrow> (Some e, s\<lparr>world := w\<rparr>)
      | (None, w) \<Rightarrow> (None, s\<lparr>world := w, routes := routes s @ [path]\<rparr>))"

text \<open>\<^verbatim>\<open>await self._event_creator.create_event(payload, None)\<close>.\<close>

definition create ::
  "('w, 'e) env \<Rightarrow> json \<Rightarrow> ('w, 'e) system \<Rightarrow> (error + 'e pyobj) \<times> ('w, 'e) system" where
  "create env payload s =
     (case create_event env payload (world s) of
        (r, w) \<Rightarrow> (r, s\<lparr>world := w, created := created s @ [payload]\<rparr>))"

text \<open>\<^verbatim>\<open>await self.opsdroid.parse(x)\<close>.\<close>

definition forward ::
  "('w, 'e) env \<Rightarrow> 'e pyobj \<Rightarrow> ('w, 'e) system \<Rightarrow> error option \<times> ('w, 'e) system" where
  "forward env x s =
     (case parse env x (world s) of
        (r, w) \<Rightarrow> (r, s\<lparr>world := w, forwarded := forwarded s @ [x]\<rparr>))"

subsection \<open>connect\<close>

text \<open>
  The \<^verbatim>\<open>try\<close> block of \<^verbatim>\<open>connect\<close> is four statements and four log lines. A
  statement that raises ends the block; the statements before it have taken effect.
\<close>

definition and_then ::
  "(error + unit) \<times> 's \<Rightarrow> ('s \<Rightarrow> (error + unit) \<times> 's) \<Rightarrow> (error + unit) \<times> 's" where
  "and_then r f = (case r of (Inl e, s) \<Rightarrow> (Inl e, s) | (Inr u, s) \<Rightarrow> f s)"

text \<open>\<^verbatim>\<open>self.auth_info = (await self.slack_web_client.api_call("auth.test")).data\<close>\<close>

definition assign_auth_info ::
  "('w, 'e) env \<Rightarrow> ('w, 'e) system \<Rightarrow> (error + unit) \<times> ('w, 'e) system" where
  "assign_auth_info env s =
     (case api_call env \<lparr>operation = ''auth.test'', http_verb = POST, args = Map.empty\<rparr> s of
        (Inl e, s1) \<Rightarrow> (Inl e, s1)
      | (Inr data, s1) \<Rightarrow> (Inr (), s1\<lparr>conn := (conn s1)\<lparr>auth_info := data\<rparr>\<rparr>))"

text \<open>
  \<^verbatim>\<open>self.user_info = (await self.slack_web_client.api_call("users.info",
  http_verb="GET", params={"user": self.auth_info["user_id"]})).data\<close>
\<close>

definition assign_user_info ::
  "('w, 'e) env \<Rightarrow> ('w, 'e) system \<Rightarrow> (error + unit) \<times> ('w, 'e) system" where
  "assign_user_info env s =
     (case py_getitem (auth_info (conn s)) ''user_id'' of
        Inl e \<Rightarrow> (Inl e, s)
      | Inr user_id \<Rightarrow>
          (case api_call env
                  \<lparr>operation = ''users.info'', http_verb = GET,
                   args = [''user'' \<mapsto> user_id]\<rparr> s of
             (Inl e, s1) \<Rightarrow> (Inl e, s1)
           | (Inr data, s1) \<Rightarrow> (Inr (), s1\<lparr>conn := (conn s1)\<lparr>user_info := data\<rparr>\<rparr>)))"

text \<open>\<^verbatim>\<open>self.bot_id = self.user_info["user"]["profile"]["bot_id"]\<close>\<close>

definition assign_bot_id :: "('w, 'e) system \<Rightarrow> (error + unit) \<times> ('w, 'e) system" where
  "assign_bot_id s =
     (case py_getitem (user_info (conn s)) ''user'' of
        Inl e \<Rightarrow> (Inl e, s)
      | Inr u \<Rightarrow>
          (case py_getitem u ''profile'' of
             Inl e \<Rightarrow> (Inl e, s)
           | Inr profile \<Rightarrow>
               (case py_getitem profile ''bot_id'' of
                  Inl e \<Rightarrow> (Inl e, s)
                | Inr b \<Rightarrow> (Inr (), s\<lparr>conn := (conn s)\<lparr>bot_id := b\<rparr>\<rparr>))))"

text \<open>
  \<^verbatim>\<open>self.opsdroid.web_server.web_app.router.add_post("/connector/{}".format(self.name),
  self.slack_event_handler)\<close>, and the log lines that end the block.
\<close>

definition register_route ::
  "('w, 'e) env \<Rightarrow> ('w, 'e) system \<Rightarrow> (error + unit) \<times> ('w, 'e) system" where
  "register_route env s =
     (case register env (''/connector/'' @ name (conn s)) s of
        (Some e, s1) \<Rightarrow> (Inl e, s1)
      | (None, s1) \<Rightarrow>
          (Inr (),
           logger INFO ''Connected successfully.''
             (logger DEBUG ''Default room is %s.''
               (logger DEBUG ''Using icon %s.''
                 (logger DEBUG ''Connected as %s.'' s1)))))"

definition connect_try ::
  "('w, 'e) env \<Rightarrow> ('w, 'e) system \<Rightarrow> (error + unit) \<times> ('w, 'e) system" where
  "connect_try env s =
     and_then
       (and_then
         (and_then (assign_auth_info env s) (assign_user_info env))
         assign_bot_id)
       (register_route env)"

text \<open>
  \<^verbatim>\<open>connect\<close>: the block, and its \<^verbatim>\<open>except SlackApiError\<close> clause, which logs the
  error and lets the method return. An exception of another class is not caught.
\<close>

definition connect ::
  "('w, 'e) env \<Rightarrow> ('w, 'e) system \<Rightarrow> (error + unit) \<times> ('w, 'e) system" where
  "connect env s =
     (case connect_try env (logger INFO ''Connecting to Slack.'' s) of
        (Inl (SlackApiError m), s1) \<Rightarrow>
          (Inr (),
           logger ERROR
             ''Unable to connect to Slack due to %s.The Slack Connector will not be available.''
             s1)
      | (r, s1) \<Rightarrow> (r, s1))"

text \<open>\<^verbatim>\<open>disconnect\<close> and \<^verbatim>\<open>listen\<close> have a docstring for a body.\<close>

definition disconnect ::
  "('w, 'e) env \<Rightarrow> ('w, 'e) system \<Rightarrow> (error + unit) \<times> ('w, 'e) system" where
  "disconnect env s = (Inr (), s)"

definition listen ::
  "('w, 'e) env \<Rightarrow> ('w, 'e) system \<Rightarrow> (error + unit) \<times> ('w, 'e) system" where
  "listen env s = (Inr (), s)"

subsection \<open>The webhook handler\<close>

text \<open>The payload of a request, by its content type; an empty dict for any other type.\<close>

definition decode_payload :: "request \<Rightarrow> error + json" where
  "decode_payload request =
     (if content_type request = ''application/x-www-form-urlencoded'' then form_payload request
      else if content_type request = ''application/json'' then json_body request
      else Inr (JDict []))"

text \<open>
  The branch on \<^verbatim>\<open>payload["type"]\<close>: either the handler returns at once (the
  verification challenge), or it goes on with the value of \<^verbatim>\<open>event\<close>.
\<close>

datatype 'e routed = Respond response | Produced "'e pyobj"

definition route_payload ::
  "('w, 'e) env \<Rightarrow> json \<Rightarrow> ('w, 'e) system \<Rightarrow> (error + 'e routed) \<times> ('w, 'e) system" where
  "route_payload env payload s =
     (case py_contains ''type'' payload of
        Inl e \<Rightarrow> (Inl e, s)
      | Inr False \<Rightarrow> (Inr (Produced PyNone), s)
      | Inr True \<Rightarrow>
          (case py_getitem payload ''type'' of
             Inl e \<Rightarrow> (Inl e, s)
           | Inr t \<Rightarrow>
               if t = JStr ''url_verification'' then
                 (case py_getitem payload ''challenge'' of
                    Inl e \<Rightarrow> (Inl e, s)
                  | Inr c \<Rightarrow> (Inr (Respond (JsonResponse (JDict [(''challenge'', c)]))), s))
               else if t = JStr ''event_callback'' then
                 (case py_getitem payload ''event'' of
                    Inl e \<Rightarrow> (Inl e, s)
                  | Inr ev \<Rightarrow>
                      (case create env ev s of
                         (Inl e, s1) \<Rightarrow> (Inl e, s1)
                       | (Inr x, s1) \<Rightarrow> (Inr (Produced x), s1)))
               else if t \<in> set [JStr ''block_actions'', JStr ''message_action'',
                                 JStr ''view_submission'', JStr ''view_closed''] then
                 (case create env payload s of
                    (Inl e, s1) \<Rightarrow> (Inl e, s1)
                  | (Inr x, s1) \<Rightarrow> (Inr (Produced x), s1))
               else
                 (Inr (Produced PyNone),
                  logger INFO ''Payload: {} is not implemented. Event wont be parsed'' s)))"

text \<open>
  The loop \<^verbatim>\<open>for e in event: ... await self.opsdroid.parse(event)\<close>: \<open>event\<close> is the
  whole list, the second argument what is left to iterate over. The argument of
  \<^verbatim>\<open>parse\<close> is \<^verbatim>\<open>event\<close>, as the source has it.
\<close>

fun forward_each ::
  "('w, 'e) env \<Rightarrow> 'e list \<Rightarrow> 'e list \<Rightarrow> ('w, 'e) system \<Rightarrow> error option \<times> ('w, 'e) system" where
  "forward_each env event [] s = (None, s)"
| "forward_each env event (e # es) s =
     (case forward env (PyList event) (logger DEBUG ''Got slack event: {}'' s) of
        (Some err, s1) \<Rightarrow> (Some err, s1)
      | (None, s1) \<Rightarrow> forward_each env event es s1)"

text \<open>The fixed acknowledgement: the text is \<^verbatim>\<open>json.dumps("Received")\<close>.\<close>

definition received :: response where
  "received = Response ([CHR 0x22] @ ''Received'' @ [CHR 0x22]) 200"

definition slack_event_handler ::
  "('w, 'e) env \<Rightarrow> request \<Rightarrow> ('w, 'e) system \<Rightarrow> (error + response) \<times> ('w, 'e) system" where
  "slack_event_handler env request s =
     (case decode_payload request of
        Inl e \<Rightarrow> (Inl e, s)
      | Inr payload \<Rightarrow>
          (case route_payload env payload s of
             (Inl e, s1) \<Rightarrow> (Inl e, s1)
           | (Inr (Respond r), s1) \<Rightarrow> (Inr r, s1)
           | (Inr (Produced event), s1) \<Rightarrow>
               (case event of
                  PyList es \<Rightarrow>
                    (case forward_each env es es s1 of
                       (Some err, s2) \<Rightarrow> (Inl err, s2)
                     | (None, s2) \<Rightarrow> (Inr received, s2))
                | PyEvent e \<Rightarrow>
                    (case forward env (PyEvent e) (logger DEBUG ''Got slack event: {}'' s1) of
                       (Some err, s2) \<Rightarrow> (Inl err, s2)
                     | (None, s2) \<Rightarrow> (Inr received, s2))
                | _ \<Rightarrow> (Inr received, s1))))"

subsection \<open>The user cache\<close>

definition lookup_username ::
  "('w, 'e) env \<Rightarrow> string \<Rightarrow> ('w, 'e) system \<Rightarrow> (error + json) \<times> ('w, 'e) system" where
  "lookup_username env userid s =
     (case known_users (conn s) userid of
        Some info \<Rightarrow> (Inr info, s)
      | None \<Rightarrow>
          (case api_call env
                  \<lparr>operation = ''users.info'', http_verb = GET,
                   args = [''user'' \<mapsto> JStr userid]\<rparr> s of
             (Inl e, s1) \<Rightarrow> (Inl e, s1)
           | (Inr data, s1) \<Rightarrow>
               (case py_getitem data ''user'' of
                  Inl e \<Rightarrow> (Inl e, s1)
                | Inr info \<Rightarrow>
                    (Inr info,
                     if is_dict info
                     then s1\<lparr>conn := (conn s1)
                            \<lparr>known_users := (known_users (conn s1))(userid \<mapsto> info)\<rparr>\<rparr>
                     else s1))))"

text \<open>
  The loop of \<^verbatim>\<open>replace_usernames\<close> over the ids \<^verbatim>\<open>findall\<close> returned.
  \<^verbatim>\<open>str.replace\<close> raises \<^verbatim>\<open>TypeError\<close> when the name is not a string.
\<close>

fun replace_each ::
  "('w, 'e) env \<Rightarrow> string list \<Rightarrow> string \<Rightarrow> ('w, 'e) system \<Rightarrow> (error + string) \<times> ('w, 'e) system" where
  "replace_each env [] message s = (Inr message, s)"
| "replace_each env (userid # userids) message s =
     (case lookup_username env userid s of
        (Inl e, s1) \<Rightarrow> (Inl e, s1)
      | (Inr info, s1) \<Rightarrow>
          (case py_getitem info ''name'' of
             Inl e \<Rightarrow> (Inl e, s1)
           | Inr (JStr n) \<Rightarrow>
               replace_each env userids (str_replace (''<@'' @ userid @ ''>'') n message) s1
           | Inr _ \<Rightarrow> (Inl TypeError, s1)))"

definition replace_usernames ::
  "('w, 'e) env \<Rightarrow> string \<Rightarrow> ('w, 'e) system \<Rightarrow> (error + string) \<times> ('w, 'e) system" where
  "replace_usernames env message s = replace_each env (findall_mentions message) message s"

subsection \<open>The outbound handlers\<close>

text \<open>
  Every handler builds the parameters of one platform call and returns what the call
  returns. The handlers are named as in the source, without the leading underscore.
\<close>

type_synonym ('w, 'e) sent = "(error + json) \<times> ('w, 'e) system"

text \<open>
  \<^verbatim>\<open>_send_message\<close>. The block under \<^verbatim>\<open>if message.linked_event:\<close> either adds
  \<^verbatim>\<open>thread_ts\<close> to the parameters or leaves them as they are; the \<^verbatim>\<open>elif\<close> on
  \<^verbatim>\<open>self.start_thread\<close> belongs to the test \<^verbatim>\<open>"thread_ts" in raw_event\<close>.
\<close>

definition send_message ::
  "('w, 'e) env \<Rightarrow> json \<Rightarrow> json \<Rightarrow> linked option \<Rightarrow> ('w, 'e) system \<Rightarrow> ('w, 'e) sent" where
  "send_message env body target linked_event s =
     (let s0 = logger DEBUG ''Responding with: '%s' in room  %s.'' s;
          data = [''channel'' \<mapsto> target, ''text'' \<mapsto> body,
                  ''username'' \<mapsto> JStr (bot_name (conn s)),
                  ''icon_emoji'' \<mapsto> JStr (icon_emoji (conn s))];
          threaded =
            (case linked_event of
               None \<Rightarrow> Inr data
             | Some le \<Rightarrow>
                 (case py_contains ''thread_ts'' (raw_event le) of
                    Inl e \<Rightarrow> Inl e
                  | Inr True \<Rightarrow>
                      (case py_getitem (raw_event le) ''thread_ts'' of
                         Inl e \<Rightarrow> Inl e
                       | Inr ts \<Rightarrow>
                           if of_opt (event_id le) \<noteq> ts
                           then Inr (data(''thread_ts'' \<mapsto> ts))
                           else Inr data)
                  | Inr False \<Rightarrow>
                      if start_thread (conn s)
                      then Inr (data(''thread_ts'' \<mapsto> of_opt (event_id le)))
                      else Inr data))
      in case threaded of
           Inl e \<Rightarrow> (Inl e, s0)
         | Inr d \<Rightarrow>
             api_call env \<lparr>operation = ''chat.postMessage'', http_verb = POST, args = d\<rparr> s0)"

definition edit_message ::
  "('w, 'e) env \<Rightarrow> json \<Rightarrow> json \<Rightarrow> json \<Rightarrow> ('w, 'e) system \<Rightarrow> ('w, 'e) sent" where
  "edit_message env body target linked_event s =
     api_call env
       \<lparr>operation = ''chat.update'', http_verb = POST,
        args = [''channel'' \<mapsto> target, ''ts'' \<mapsto> linked_event, ''text'' \<mapsto> body]\<rparr>
       (logger DEBUG ''Editing message with timestamp: '%s' to %s in room  %s.'' s)"

definition send_blocks ::
  "('w, 'e) env \<Rightarrow> json \<Rightarrow> json \<Rightarrow> ('w, 'e) system \<Rightarrow> ('w, 'e) sent" where
  "send_blocks env blocks target s =
     api_call env
       \<lparr>operation = ''chat.postMessage'', http_verb = POST,
        args = [''channel'' \<mapsto> target, ''username'' \<mapsto> JStr (bot_name (conn s)),
                ''blocks'' \<mapsto> blocks, ''icon_emoji'' \<mapsto> JStr (icon_emoji (conn s))]\<rparr>
       (logger DEBUG ''Responding with interactive blocks in room %s.'' s)"

definition edit_blocks ::
  "('w, 'e) env \<Rightarrow> json \<Rightarrow> json \<Rightarrow> json \<Rightarrow> ('w, 'e) system \<Rightarrow> ('w, 'e) sent" where
  "edit_blocks env blocks target linked_event s =
     api_call env
       \<lparr>operation = ''chat.update'', http_verb = POST,
        args = [''channel'' \<mapsto> target, ''ts'' \<mapsto> linked_event, ''blocks'' \<mapsto> blocks]\<rparr>
       (logger DEBUG ''Editing interactive blocks with timestamp: '%s' in room  %s.'' s)"

text \<open>
  \<^verbatim>\<open>send_reaction\<close>. The parameters are built inside the \<^verbatim>\<open>try\<close>; reading
  \<^verbatim>\<open>.event_id\<close> of a missing linked event raises \<^verbatim>\<open>AttributeError\<close>, which the
  \<^verbatim>\<open>except SlackApiError\<close> clause does not catch. When the clause swallows the
  error the method returns \<^verbatim>\<open>None\<close>.
\<close>

definition send_reaction ::
  "('w, 'e) env \<Rightarrow> string \<Rightarrow> json \<Rightarrow> linked option \<Rightarrow> ('w, 'e) system \<Rightarrow> ('w, 'e) sent" where
  "send_reaction env emoji target linked_event s =
     (let emoji' = str_replace '':'' [] (demojize env emoji);
          s0 = logger DEBUG ''Reacting with: %s.'' s
      in case linked_event of
           None \<Rightarrow> (Inl AttributeError, s0)
         | Some le \<Rightarrow>
             (case api_call env
                     \<lparr>operation = ''reactions.add'', http_verb = POST,
                      args = [''name'' \<mapsto> JStr emoji', ''channel'' \<mapsto> target,
                              ''timestamp'' \<mapsto> of_opt (event_id le)]\<rparr> s0 of
                (Inl (SlackApiError m), s1) \<Rightarrow>
                  if str_contains ''invalid_name'' m
                  then (Inr JNull, logger WARNING ''Slack does not support the emoji %s.'' s1)
                  else (Inl (SlackApiError m), s1)
              | (r, s1) \<Rightarrow> (r, s1)))"

definition send_room_creation ::
  "('w, 'e) env \<Rightarrow> json \<Rightarrow> ('w, 'e) system \<Rightarrow> ('w, 'e) sent" where
  "send_room_creation env room s =
     api_call env
       \<lparr>operation = ''conversations.create'', http_verb = POST, args = [''name'' \<mapsto> room]\<rparr>
       (logger DEBUG ''Creating room %s.'' s)"

definition send_room_name_set ::
  "('w, 'e) env \<Rightarrow> json \<Rightarrow> json \<Rightarrow> ('w, 'e) system \<Rightarrow> ('w, 'e) sent" where
  "send_room_name_set env room target s =
     api_call env
       \<lparr>operation = ''conversations.rename'', http_verb = POST,
        args = [''channel'' \<mapsto> target, ''name'' \<mapsto> room]\<rparr>
       (logger DEBUG ''Renaming room %s to '%s'.'' s)"

definition send_join_room ::
  "('w, 'e) env \<Rightarrow> json \<Rightarrow> ('w, 'e) system \<Rightarrow> ('w, 'e) sent" where
  "send_join_room env target s =
     api_call env
       \<lparr>operation = ''conversations.join'', http_verb = POST, args = [''channel'' \<mapsto> target]\<rparr>
       s"

definition send_user_invitation ::
  "('w, 'e) env \<Rightarrow> json \<Rightarrow> json \<Rightarrow> ('w, 'e) system \<Rightarrow> ('w, 'e) sent" where
  "send_user_invitation env user_id target s =
     api_call env
       \<lparr>operation = ''conversations.invite'', http_verb = POST,
        args = [''channel'' \<mapsto> target, ''users'' \<mapsto> user_id]\<rparr>
       (logger DEBUG ''Inviting user %s to room '%s'.'' s)"

definition send_room_description ::
  "('w, 'e) env \<Rightarrow> json \<Rightarrow> json \<Rightarrow> ('w, 'e) system \<Rightarrow> ('w, 'e) sent" where
  "send_room_description env description target s =
     api_call env
       \<lparr>operation = ''conversations.setTopic'', http_verb = POST,
        args = [''channel'' \<mapsto> target, ''topic'' \<mapsto> description]\<rparr>
       s"

text \<open>
  \<^verbatim>\<open>_send_pin_message\<close> and \<^verbatim>\<open>_send_unpin_message\<close> read \<^verbatim>\<open>.event_id\<close> of the
  linked event with no \<^verbatim>\<open>try\<close> around it.
\<close>

definition send_pin_message ::
  "('w, 'e) env \<Rightarrow> json \<Rightarrow> linked option \<Rightarrow> ('w, 'e) system \<Rightarrow> ('w, 'e) sent" where
  "send_pin_message env target linked_event s =
     (case linked_event of
        None \<Rightarrow> (Inl AttributeError, s)
      | Some le \<Rightarrow>
          api_call env
            \<lparr>operation = ''pins.add'', http_verb = POST,
             args = [''channel'' \<mapsto> target, ''timestamp'' \<mapsto> of_opt (event_id le)]\<rparr>
            s)"

definition send_unpin_message ::
  "('w, 'e) env \<Rightarrow> json \<Rightarrow> linked option \<Rightarrow> ('w, 'e) system \<Rightarrow> ('w, 'e) sent" where
  "send_unpin_message env target linked_event s =
     (case linked_event of
        None \<Rightarrow> (Inl AttributeError, s)
      | Some le \<Rightarrow>
          api_call env
            \<lparr>operation = ''pins.remove'', http_verb = POST,
             args = [''channel'' \<mapsto> target, ''timestamp'' \<mapsto> of_opt (event_id le)]\<rparr>
            s)"

text \<open>
  The handler that the source registers, with \<^verbatim>\<open>@register_event\<close>, for the class of
  an outgoing event, applied to the event.
\<close>

fun registered_handler :: "('w, 'e) env \<Rightarrow> event \<Rightarrow> ('w, 'e) system \<Rightarrow> ('w, 'e) sent" where
  "registered_handler env (Message body target linked_event) s = send_message env body target linked_event s"
| "registered_handler env (EditedMessage body target linked_event) s =
     edit_message env body target linked_event s"
| "registered_handler env (Blocks blocks target) s = send_blocks env blocks target s"
| "registered_handler env (EditedBlocks blocks target linked_event) s =
     edit_blocks env blocks target linked_event s"
| "registered_handler env (Reaction emoji target linked_event) s =
     send_reaction env emoji target linked_event s"
| "registered_handler env (NewRoom room) s = send_room_creation env room s"
| "registered_handler env (RoomName room target) s = send_room_name_set env room target s"
| "registered_handler env (JoinRoom target) s = send_join_room env target s"
| "registered_handler env (UserInvite user_id target) s = send_user_invitation env user_id target s"
| "registered_handler env (RoomDescription description target) s =
     send_room_description env description target s"
| "registered_handler env (PinMessage target linked_event) s = send_pin_message env target linked_event s"
| "registered_handler env (UnpinMessage target linked_event) s =
     send_unpin_message env target linked_event s"

subsection \<open>Runs of the connector\<close>

text \<open>
  The operations of a connector: its public methods, and \<open>Send\<close> for an outgoing event
  given to its handler. \<open>exec\<close> is the state after one operation and \<open>run\<close> the state
  after a sequence of them, whatever each returned or raised.
\<close>

datatype op =
    Connect
  | Disconnect
  | Listen
  | SlackEventHandler request
  | LookupUsername string
  | ReplaceUsernames string
  | Send event

fun exec :: "('w, 'e) env \<Rightarrow> op \<Rightarrow> ('w, 'e) system \<Rightarrow> ('w, 'e) system" where
  "exec env Connect s = snd (connect env s)"
| "exec env Disconnect s = snd (disconnect env s)"
| "exec env Listen s = snd (listen env s)"
| "exec env (SlackEventHandler request) s = snd (slack_event_handler env request s)"
| "exec env (LookupUsername userid) s = snd (lookup_username env userid s)"
| "exec env (ReplaceUsernames message) s = snd (replace_usernames env message s)"
| "exec env (Send ev) s = snd (registered_handler env ev s)"

fun run :: "('w, 'e) env \<Rightarrow> op list \<Rightarrow> ('w, 'e) system \<Rightarrow> ('w, 'e) system" where
  "run env [] s = s"
| "run env (x # xs) s = run env xs (exec env x s)"

subsection \<open>Fixtures\<close>

text \<open>
  The connector of the test suite: what \<^verbatim>\<open>__init__\<close> builds from a configuration
  that gives only a token.
\<close>

definition test_connector :: connector where
  "test_connector =
     \<lparr>name = ''slack'', default_target = ''#general'', icon_emoji = '':robot_face:'',
      token = ''abc123'', start_thread = False, bot_name = ''opsdroid'',
      auth_info = JNull, user_info = JNull, bot_id = JNull, known_users = Map.empty\<rparr>"

text \<open>
  A platform that answers by operation name, as the test suite's mock does; an
  operation with no answer fails with \<^verbatim>\<open>SlackApiError\<close>.
\<close>

definition mock_api :: "(string \<times> (error + json)) list \<Rightarrow> call \<Rightarrow> error + json" where
  "mock_api responses c =
     (case map_of responses (operation c) of
        Some r \<Rightarrow> r
      | None \<Rightarrow> Inl (SlackApiError ''The request to the Slack API failed.''))"

text \<open>
  Collaborators with no state of their own: a platform, what the Event Creator
  returns, and what \<^verbatim>\<open>opsdroid.parse\<close> raises. Inbound events are named by strings.
\<close>

definition mock_env ::
  "(call \<Rightarrow> error + json) \<Rightarrow> error + string pyobj \<Rightarrow> error option \<Rightarrow> (unit, string) env" where
  "mock_env api made intake =
     \<lparr>web = (\<lambda>c w. (api c, w)), add_post = (\<lambda>path w. (None, w)),
      create_event = (\<lambda>payload w. (made, w)), parse = (\<lambda>x w. (intake, w)),
      demojize = (\<lambda>emoji. emoji)\<rparr>"

text \<open>A system in which nothing has happened yet.\<close>

definition fresh :: "connector \<Rightarrow> (unit, string) system" where
  "fresh c =
     \<lparr>conn = c, world = (), calls = [], routes = [], created = [], forwarded = [],
      logged = []\<rparr>"

text \<open>The answer to \<^verbatim>\<open>users.info\<close> in \<^verbatim>\<open>test_lookup_username_user_not_present\<close>.\<close>

definition users_info_response :: json where
  "users_info_response =
     JDict [(''ok'', JBool True),
            (''user'', JDict [(''id'', JStr ''U01NK1K9L68''), (''name'', JStr ''Test User'')])]"

text \<open>A request with a JSON body.\<close>

definition json_request :: "json \<Rightarrow> request" where
  "json_request payload =
     \<lparr>content_type = ''application/json'',
      form_payload = Inl (KeyError ''payload''),
      json_body = Inr payload\<rparr>"

text \<open>
  The text of the error the platform client raises when \<^verbatim>\<open>reactions.add\<close> is
  answered with \<^verbatim>\<open>invalid_name\<close>, the linked message of the reaction tests, and a
  platform that rejects every reaction so.
\<close>

definition invalid_name_text :: string where
  "invalid_name_text =
     ''The request to the Slack API failed. The server responded with: {'ok': False, 'error': 'invalid_name'}''"

definition linked_message :: linked where
  "linked_message = \<lparr>event_id = Some ''1582838099.000601'', raw_event = JDict [(''ts'', JNum 0)]\<rparr>"

definition rejecting_env :: "(unit, string) env" where
  "rejecting_env =
     mock_env (mock_api [(''reactions.add'', Inl (SlackApiError invalid_name_text))])
       (Inr PyNone) None"


definition message_callback :: json where
  "message_callback =
     JDict [(''type'', JStr ''event_callback''), (''event'', JDict [(''type'', JStr ''message'')])]"

text \<open>
  The platform of \<^verbatim>\<open>test_connect\<close>, and one whose \<^verbatim>\<open>users.info\<close> answers with a
  profile that has no \<^verbatim>\<open>bot_id\<close>, as the profile of a user who is not a bot.
\<close>

definition auth_test_response :: json where
  "auth_test_response = JDict [(''ok'', JBool True), (''user_id'', JStr ''B061F7JD2'')]"

definition bot_info_response :: json where
  "bot_info_response =
     JDict [(''ok'', JBool True),
            (''user'', JDict [(''id'', JStr ''B061F7JD2''),
                              (''profile'', JDict [(''bot_id'', JStr ''B061F7JD2'')])])]"

definition human_info_response :: json where
  "human_info_response =
     JDict [(''ok'', JBool True),
            (''user'', JDict [(''id'', JStr ''B061F7JD2''),
                              (''profile'', JDict [(''real_name'', JStr ''Test User'')])])]"

text \<open>
  The platform and the linked events of the tests of \<^verbatim>\<open>_send_message\<close>: a reply in a
  thread, and the message that started the thread.
\<close>

definition posting_env :: "(unit, string) env" where
  "posting_env =
     mock_env (mock_api [(''chat.postMessage'', Inr (JDict [(''ok'', JBool True)]))])
       (Inr PyNone) None"

definition thread_reply :: linked where
  "thread_reply =
     \<lparr>event_id = None, raw_event = JDict [(''thread_ts'', JStr ''1582838099.000600'')]\<rparr>"

definition thread_root :: linked where
  "thread_root =
     \<lparr>event_id = Some ''1582838099.000600'',
      raw_event = JDict [(''thread_ts'', JStr ''1582838099.000600'')]\<rparr>"

text \<open>
  The connector of \<^verbatim>\<open>test_replace_usernames\<close>, with one user in its cache.
\<close>

definition caching_connector :: connector where
  "caching_connector =
     test_connector\<lparr>known_users := [''U01NK1K9L68'' \<mapsto> JDict [(''name'', JStr ''Test User'')]]\<rparr>"

section \<open>Properties\<close>

subsection \<open>What a method leaves alone\<close>

lemma conn_logger: "conn (logger l m s) = conn s"
  by (simp add: logger_def)

lemma api_call_conn: "api_call env c s = (r, s1) \<Longrightarrow> conn s1 = conn s"
  by (auto simp: api_call_def split: prod.splits)

lemma register_conn: "register env path s = (r, s1) \<Longrightarrow> conn s1 = conn s"
  by (auto simp: register_def split: prod.splits option.splits)

lemma create_conn: "create env payload s = (r, s1) \<Longrightarrow> conn s1 = conn s"
  by (auto simp: create_def split: prod.splits)

lemma forward_conn: "forward env x s = (r, s1) \<Longrightarrow> conn s1 = conn s"
  by (auto simp: forward_def split: prod.splits)

lemma forward_each_conn: "forward_each env event es s = (r, s1) \<Longrightarrow> conn s1 = conn s"
proof (induction es arbitrary: s)
  case Nil
  then show ?case by simp
next
  case (Cons e es)
  then show ?case
    by (auto split: prod.splits option.splits dest!: forward_conn simp: conn_logger)
qed

lemma route_payload_conn: "route_payload env payload s = (r, s1) \<Longrightarrow> conn s1 = conn s"
  by (auto simp: route_payload_def conn_logger
      split: sum.splits bool.splits if_splits prod.splits dest!: create_conn)

lemma slack_event_handler_conn:
  "slack_event_handler env request s = (r, s1) \<Longrightarrow> conn s1 = conn s"
  by (auto simp: slack_event_handler_def conn_logger
      split: sum.splits prod.splits routed.splits pyobj.splits option.splits
      dest!: route_payload_conn forward_each_conn forward_conn)

text \<open>
  A connector \<open>c1\<close> that differs from \<open>c0\<close> in the cache at most is written
  \<open>c1 = c0\<lparr>known_users := known_users c1\<rparr>\<close>; likewise for the three attributes of the
  handshake.
\<close>

lemma known_users_upd_trans:
  "c1 = c0\<lparr>known_users := k1\<rparr> \<Longrightarrow> c2 = c1\<lparr>known_users := k2\<rparr> \<Longrightarrow>
   c2 = c0\<lparr>known_users := k2\<rparr>"
  by simp

lemma lookup_username_others:
  "lookup_username env userid s = (r, s1) \<Longrightarrow>
   conn s1 = (conn s)\<lparr>known_users := known_users (conn s1)\<rparr>"
  by (auto simp: lookup_username_def split: option.splits prod.splits sum.splits if_splits
      dest!: api_call_conn)

lemma lookup_username_mono:
  "lookup_username env userid s = (r, s1) \<Longrightarrow>
   known_users (conn s) \<subseteq>\<^sub>m known_users (conn s1)"
  by (auto simp: lookup_username_def map_le_def
      split: option.splits prod.splits sum.splits if_splits dest!: api_call_conn)

text \<open>
  One round of the loop of \<^verbatim>\<open>replace_usernames\<close> either goes on, with the state
  the lookup left, or ends there.
\<close>

lemma replace_each_step:
  assumes "replace_each env (userid # userids) message s = (r, s1)"
    and "lookup_username env userid s = (r0, s0)"
  obtains n where
    "replace_each env userids (str_replace (''<@'' @ userid @ ''>'') n message) s0 = (r, s1)"
  | "s1 = s0"
proof (cases "\<exists>info n. r0 = Inr info \<and> py_getitem info ''name'' = Inr (JStr n)")
  case True
  then obtain info n where "r0 = Inr info" and "py_getitem info ''name'' = Inr (JStr n)"
    by blast
  with assms
  have "replace_each env userids (str_replace (''<@'' @ userid @ ''>'') n message) s0 = (r, s1)"
    by simp
  then show ?thesis by (rule that(1))
next
  case False
  with assms have "s1 = s0"
    by (auto split: sum.splits json.splits)
  then show ?thesis by (rule that(2))
qed

lemma replace_each_others:
  "replace_each env userids message s = (r, s1) \<Longrightarrow>
   conn s1 = (conn s)\<lparr>known_users := known_users (conn s1)\<rparr>"
proof (induction userids arbitrary: message s)
  case Nil
  then show ?case by auto
next
  case (Cons userid userids)
  obtain r0 s0 where l: "lookup_username env userid s = (r0, s0)"
    by (cases "lookup_username env userid s")
  note k0 = lookup_username_others[OF l]
  from Cons.prems l show ?case
  proof (cases rule: replace_each_step)
    case (1 n)
    from k0 Cons.IH[OF 1] show ?thesis by (rule known_users_upd_trans)
  next
    case 2
    with k0 show ?thesis by simp
  qed
qed

lemma replace_each_mono:
  "replace_each env userids message s = (r, s1) \<Longrightarrow>
   known_users (conn s) \<subseteq>\<^sub>m known_users (conn s1)"
proof (induction userids arbitrary: message s)
  case Nil
  then show ?case by simp
next
  case (Cons userid userids)
  obtain r0 s0 where l: "lookup_username env userid s = (r0, s0)"
    by (cases "lookup_username env userid s")
  note m0 = lookup_username_mono[OF l]
  from Cons.prems l show ?case
  proof (cases rule: replace_each_step)
    case (1 n)
    from m0 Cons.IH[OF 1] show ?thesis by (rule map_le_trans)
  next
    case 2
    with m0 show ?thesis by simp
  qed
qed

subsection \<open>The handshake writes three attributes\<close>

lemma and_then_cases:
  assumes "and_then r f = (x, s1)"
  obtains e where "r = (Inl e, s1)" "x = Inl e"
  | u s0 where "r = (Inr u, s0)" "f s0 = (x, s1)"
  using assms by (auto simp: and_then_def split: prod.splits sum.splits)

lemma handshake_frame_auth:
  "c1 = c0\<lparr>auth_info := x\<rparr> \<Longrightarrow>
   c1 = c0\<lparr>auth_info := auth_info c1, user_info := user_info c1, bot_id := bot_id c1\<rparr>"
  by simp

lemma handshake_frame_user:
  "c1 = c0\<lparr>user_info := x\<rparr> \<Longrightarrow>
   c1 = c0\<lparr>auth_info := auth_info c1, user_info := user_info c1, bot_id := bot_id c1\<rparr>"
  by simp

lemma handshake_frame_bot:
  "c1 = c0\<lparr>bot_id := x\<rparr> \<Longrightarrow>
   c1 = c0\<lparr>auth_info := auth_info c1, user_info := user_info c1, bot_id := bot_id c1\<rparr>"
  by simp

lemma handshake_frame_same:
  "c1 = c0 \<Longrightarrow>
   c1 = c0\<lparr>auth_info := auth_info c1, user_info := user_info c1, bot_id := bot_id c1\<rparr>"
  by simp

lemma handshake_frame_trans:
  "c1 = c0\<lparr>auth_info := a1, user_info := u1, bot_id := b1\<rparr> \<Longrightarrow>
   c2 = c1\<lparr>auth_info := a2, user_info := u2, bot_id := b2\<rparr> \<Longrightarrow>
   c2 = c0\<lparr>auth_info := a2, user_info := u2, bot_id := b2\<rparr>"
  by simp

lemma handshake_frame_known_users:
  "c1 = c0\<lparr>auth_info := a, user_info := u, bot_id := b\<rparr> \<Longrightarrow> known_users c1 = known_users c0"
  by simp

lemma assign_auth_info_others:
  "assign_auth_info env s = (r, s1) \<Longrightarrow> conn s1 = (conn s)\<lparr>auth_info := auth_info (conn s1)\<rparr>"
  by (auto simp: assign_auth_info_def split: prod.splits sum.splits dest!: api_call_conn)

lemma assign_user_info_others:
  "assign_user_info env s = (r, s1) \<Longrightarrow> conn s1 = (conn s)\<lparr>user_info := user_info (conn s1)\<rparr>"
  by (auto simp: assign_user_info_def split: prod.splits sum.splits dest!: api_call_conn)

lemma assign_bot_id_others:
  "assign_bot_id s = (r, s1) \<Longrightarrow> conn s1 = (conn s)\<lparr>bot_id := bot_id (conn s1)\<rparr>"
  by (auto simp: assign_bot_id_def split: prod.splits sum.splits)

lemma register_route_conn: "register_route env s = (r, s1) \<Longrightarrow> conn s1 = conn s"
  by (auto simp: register_route_def conn_logger split: prod.splits option.splits
      dest!: register_conn)

lemma and_then_handshake_frame:
  assumes "and_then r f = (x, s1)"
    and "\<And>y t. r = (y, t) \<Longrightarrow>
          conn t = c\<lparr>auth_info := auth_info (conn t), user_info := user_info (conn t),
                      bot_id := bot_id (conn t)\<rparr>"
    and "\<And>t y t1. f t = (y, t1) \<Longrightarrow>
          conn t1 = (conn t)\<lparr>auth_info := auth_info (conn t1), user_info := user_info (conn t1),
                      bot_id := bot_id (conn t1)\<rparr>"
  shows "conn s1 = c\<lparr>auth_info := auth_info (conn s1), user_info := user_info (conn s1),
                      bot_id := bot_id (conn s1)\<rparr>"
  using assms(1)
proof (cases rule: and_then_cases)
  case (1 e)
  then show ?thesis using assms(2) by blast
next
  case (2 u s0)
  from assms(2)[OF 2(1)] assms(3)[OF 2(2)] show ?thesis
    by (rule handshake_frame_trans)
qed

lemma connect_try_others:
  assumes "connect_try env s = (r, s1)"
  shows "conn s1 = (conn s)\<lparr>auth_info := auth_info (conn s1), user_info := user_info (conn s1),
                       bot_id := bot_id (conn s1)\<rparr>"
  using assms unfolding connect_try_def
proof (rule and_then_handshake_frame)
  fix y t
  assume "and_then (and_then (assign_auth_info env s) (assign_user_info env)) assign_bot_id = (y, t)"
  then show "conn t = (conn s)\<lparr>auth_info := auth_info (conn t), user_info := user_info (conn t),
                       bot_id := bot_id (conn t)\<rparr>"
  proof (rule and_then_handshake_frame)
    fix y t
    assume "and_then (assign_auth_info env s) (assign_user_info env) = (y, t)"
    then show "conn t = (conn s)\<lparr>auth_info := auth_info (conn t), user_info := user_info (conn t),
                       bot_id := bot_id (conn t)\<rparr>"
      by (rule and_then_handshake_frame)
        (erule assign_auth_info_others[THEN handshake_frame_auth],
         erule assign_user_info_others[THEN handshake_frame_user])
  qed (erule assign_bot_id_others[THEN handshake_frame_bot])
qed (erule register_route_conn[THEN handshake_frame_same])

lemma connect_others:
  assumes "connect env s = (r, s1)"
  shows "conn s1 = (conn s)\<lparr>auth_info := auth_info (conn s1), user_info := user_info (conn s1),
                       bot_id := bot_id (conn s1)\<rparr>"
proof -
  obtain r0 s0 where t: "connect_try env (logger INFO ''Connecting to Slack.'' s) = (r0, s0)"
    by (cases "connect_try env (logger INFO ''Connecting to Slack.'' s)")
  from connect_try_others[OF t]
  have f: "conn s0 = (conn s)\<lparr>auth_info := auth_info (conn s0), user_info := user_info (conn s0),
                       bot_id := bot_id (conn s0)\<rparr>"
    by (simp add: conn_logger)
  from assms t have "conn s1 = conn s0"
    by (auto simp: connect_def conn_logger split: sum.splits error.splits)
  with f show ?thesis by simp
qed

subsection \<open>The handshake registers its route last\<close>

lemma api_call_routes: "api_call env c s = (r, s1) \<Longrightarrow> routes s1 = routes s"
  by (auto simp: api_call_def split: prod.splits)

lemma assign_auth_info_routes: "assign_auth_info env s = (r, s1) \<Longrightarrow> routes s1 = routes s"
  by (auto simp: assign_auth_info_def split: prod.splits sum.splits dest!: api_call_routes)

lemma assign_user_info_routes: "assign_user_info env s = (r, s1) \<Longrightarrow> routes s1 = routes s"
  by (auto simp: assign_user_info_def split: prod.splits sum.splits dest!: api_call_routes)

lemma assign_bot_id_routes: "assign_bot_id s = (r, s1) \<Longrightarrow> routes s1 = routes s"
  by (auto simp: assign_bot_id_def split: prod.splits sum.splits)

lemma register_route_fails: "register_route env s = (Inl e, s1) \<Longrightarrow> routes s1 = routes s"
  by (auto simp: register_route_def register_def split: prod.splits option.splits)

lemma routes_logger: "routes (logger l m s) = routes s"
  by (simp add: logger_def)

lemma and_then_routes:
  assumes "and_then r f = (x, s1)"
    and "\<And>y t. r = (y, t) \<Longrightarrow> routes t = k"
    and "\<And>t y t1. f t = (y, t1) \<Longrightarrow> routes t1 = routes t"
  shows "routes s1 = k"
  using assms(1)
proof (cases rule: and_then_cases)
  case (1 e)
  then show ?thesis using assms(2) by blast
next
  case (2 u s0)
  from assms(2)[OF 2(1)] assms(3)[OF 2(2)] show ?thesis by simp
qed

lemma handshake_routes:
  assumes "and_then (and_then (assign_auth_info env s) (assign_user_info env)) assign_bot_id =
           (r, s1)"
  shows "routes s1 = routes s"
  using assms
proof (rule and_then_routes)
  fix y t
  assume "and_then (assign_auth_info env s) (assign_user_info env) = (y, t)"
  then show "routes t = routes s"
    by (rule and_then_routes) (erule assign_auth_info_routes, erule assign_user_info_routes)
qed (erule assign_bot_id_routes)

lemma connect_try_fails:
  assumes "connect_try env s = (Inl e, s1)"
  shows "routes s1 = routes s"
  using assms unfolding connect_try_def
proof (cases rule: and_then_cases)
  case (1 e')
  from this(1) show ?thesis by (rule handshake_routes)
next
  case (2 u s0)
  from handshake_routes[OF 2(1)] register_route_fails[OF 2(2)] show ?thesis by simp
qed

lemma mock_api_call:
  "api_call (mock_env api made intake) c s = (api c, s\<lparr>calls := calls s @ [c]\<rparr>)"
  by (simp add: api_call_def mock_env_def)

lemma mock_register:
  "register (mock_env api made intake) path s = (None, s\<lparr>routes := routes s @ [path]\<rparr>)"
  by (simp add: register_def mock_env_def)

text \<open>
  The handshake of \<^verbatim>\<open>test_connect\<close>: both calls are made, the bot id is stored and
  the route \<^verbatim>\<open>/connector/slack\<close> is registered.
\<close>

lemma connect_succeeds:
  "connect
     (mock_env (mock_api [(''auth.test'', Inr auth_test_response),
                          (''users.info'', Inr bot_info_response)])
        (Inr PyNone) None)
     (fresh test_connector) =
   (Inr (),
    \<lparr>conn = test_connector\<lparr>auth_info := auth_test_response, user_info := bot_info_response,
                             bot_id := JStr ''B061F7JD2''\<rparr>,
     world = (),
     calls = [\<lparr>operation = ''auth.test'', http_verb = POST, args = Map.empty\<rparr>,
              \<lparr>operation = ''users.info'', http_verb = GET,
               args = [''user'' \<mapsto> JStr ''B061F7JD2'']\<rparr>],
     routes = [''/connector/slack''], created = [], forwarded = [],
     logged = [(INFO, ''Connecting to Slack.''), (DEBUG, ''Connected as %s.''),
               (DEBUG, ''Using icon %s.''), (DEBUG, ''Default room is %s.''),
               (INFO, ''Connected successfully.'')]\<rparr>)"
  by (simp add: connect_def connect_try_def and_then_def assign_auth_info_def
      assign_user_info_def assign_bot_id_def register_route_def mock_api_call mock_register
      mock_api_def auth_test_response_def bot_info_response_def logger_def fresh_def
      test_connector_def)

subsection \<open>The outbound handlers write nothing\<close>

lemma send_message_conn: "send_message env body target linked_event s = (r, s1) \<Longrightarrow> conn s1 = conn s"
  by (auto simp: send_message_def Let_def conn_logger
      split: option.splits sum.splits bool.splits if_splits dest!: api_call_conn)

lemma edit_message_conn: "edit_message env body target linked_event s = (r, s1) \<Longrightarrow> conn s1 = conn s"
  by (auto simp: edit_message_def conn_logger dest!: api_call_conn)

lemma send_blocks_conn: "send_blocks env blocks target s = (r, s1) \<Longrightarrow> conn s1 = conn s"
  by (auto simp: send_blocks_def conn_logger dest!: api_call_conn)

lemma edit_blocks_conn: "edit_blocks env blocks target linked_event s = (r, s1) \<Longrightarrow> conn s1 = conn s"
  by (auto simp: edit_blocks_def conn_logger dest!: api_call_conn)

lemma send_reaction_conn: "send_reaction env emoji target linked_event s = (r, s1) \<Longrightarrow> conn s1 = conn s"
  by (auto simp: send_reaction_def Let_def conn_logger
      split: option.splits sum.splits prod.splits error.splits if_splits dest!: api_call_conn)

lemma send_room_creation_conn: "send_room_creation env room s = (r, s1) \<Longrightarrow> conn s1 = conn s"
  by (auto simp: send_room_creation_def conn_logger dest!: api_call_conn)

lemma send_room_name_set_conn: "send_room_name_set env room target s = (r, s1) \<Longrightarrow> conn s1 = conn s"
  by (auto simp: send_room_name_set_def conn_logger dest!: api_call_conn)

lemma send_join_room_conn: "send_join_room env target s = (r, s1) \<Longrightarrow> conn s1 = conn s"
  by (auto simp: send_join_room_def dest!: api_call_conn)

lemma send_user_invitation_conn: "send_user_invitation env user_id target s = (r, s1) \<Longrightarrow> conn s1 = conn s"
  by (auto simp: send_user_invitation_def conn_logger dest!: api_call_conn)

lemma send_room_description_conn: "send_room_description env description target s = (r, s1) \<Longrightarrow> conn s1 = conn s"
  by (auto simp: send_room_description_def dest!: api_call_conn)

lemma send_pin_message_conn: "send_pin_message env target linked_event s = (r, s1) \<Longrightarrow> conn s1 = conn s"
  by (auto simp: send_pin_message_def split: option.splits dest!: api_call_conn)

lemma send_unpin_message_conn: "send_unpin_message env target linked_event s = (r, s1) \<Longrightarrow> conn s1 = conn s"
  by (auto simp: send_unpin_message_def split: option.splits dest!: api_call_conn)

lemma registered_handler_conn: "registered_handler env ev s = (r, s1) \<Longrightarrow> conn s1 = conn s"
  by (cases ev)
    (auto dest: send_message_conn edit_message_conn send_blocks_conn edit_blocks_conn
      send_reaction_conn send_room_creation_conn send_room_name_set_conn send_join_room_conn
      send_user_invitation_conn send_room_description_conn send_pin_message_conn
      send_unpin_message_conn)

subsection \<open>The cache only grows\<close>

lemma exec_mono: "known_users (conn s) \<subseteq>\<^sub>m known_users (conn (exec env x s))"
proof (cases x)
  case Connect
  obtain r s1 where c: "connect env s = (r, s1)" by (cases "connect env s")
  from connect_others[OF c] have "known_users (conn s1) = known_users (conn s)"
    by (rule handshake_frame_known_users)
  with Connect c show ?thesis by simp
next
  case (SlackEventHandler request)
  then show ?thesis
    by (cases "slack_event_handler env request s") (auto dest: slack_event_handler_conn)
next
  case (LookupUsername userid)
  then show ?thesis
    by (cases "lookup_username env userid s") (auto dest: lookup_username_mono)
next
  case (ReplaceUsernames message)
  then show ?thesis
    by (cases "replace_usernames env message s")
      (auto simp: replace_usernames_def dest: replace_each_mono)
next
  case (Send ev)
  then show ?thesis
    by (cases "registered_handler env ev s") (auto dest: registered_handler_conn)
qed (simp_all add: disconnect_def listen_def)

lemma run_mono: "known_users (conn s) \<subseteq>\<^sub>m known_users (conn (run env xs s))"
proof (induction xs arbitrary: s)
  case Nil
  show ?case by simp
next
  case (Cons x xs)
  have "known_users (conn s) \<subseteq>\<^sub>m known_users (conn (exec env x s))" by (rule exec_mono)
  also have "\<dots> \<subseteq>\<^sub>m known_users (conn (run env xs (exec env x s)))" by (rule Cons.IH)
  finally show ?case by simp
qed

lemma lookup_username_hit:
  "known_users (conn s) userid = Some profile \<Longrightarrow>
   lookup_username env userid s = (Inr profile, s)"
  by (simp add: lookup_username_def)

lemma lookup_username_caches:
  "lookup_username env userid s = (Inr profile, s1) \<Longrightarrow> is_dict profile \<Longrightarrow>
   known_users (conn s1) userid = Some profile"
  by (auto simp: lookup_username_def split: option.splits prod.splits sum.splits if_splits)

subsection \<open>The webhook handler, branch by branch\<close>





lemma route_payload_callback:
  "map_of kvs ''type'' = Some (JStr ''event_callback'') \<Longrightarrow> map_of kvs ''event'' = Some ev \<Longrightarrow>
   route_payload env (JDict kvs) s =
     (case create env ev s of
        (Inl e, s1) \<Rightarrow> (Inl e, s1)
      | (Inr x, s1) \<Rightarrow> (Inr (Produced x), s1))"
  by (simp add: route_payload_def)




lemma slack_event_handler_routed:
  assumes "decode_payload request = Inr payload"
    and "route_payload env payload s = (Inr (Produced x), s1)"
  shows "slack_event_handler env request s =
     (case x of
        PyList es \<Rightarrow>
          (case forward_each env es es s1 of
             (Some err, s2) \<Rightarrow> (Inl err, s2)
           | (None, s2) \<Rightarrow> (Inr received, s2))
      | PyEvent e \<Rightarrow>
          (case forward env (PyEvent e) (logger DEBUG ''Got slack event: {}'' s1) of
             (Some err, s2) \<Rightarrow> (Inl err, s2)
           | (None, s2) \<Rightarrow> (Inr received, s2))
      | _ \<Rightarrow> (Inr received, s1))"
  using assms by (simp add: slack_event_handler_def)

lemma decode_json_request: "decode_payload (json_request payload) = Inr payload"
  by (simp add: decode_payload_def json_request_def)

lemma mock_create:
  "create (mock_env api made intake) payload s = (made, s\<lparr>created := created s @ [payload]\<rparr>)"
  by (simp add: create_def mock_env_def)

lemma mock_forward:
  "forward (mock_env api made intake) x s = (intake, s\<lparr>forwarded := forwarded s @ [x]\<rparr>)"
  by (simp add: forward_def mock_env_def)

lemma message_callback_routed:
  "route_payload (mock_env api (Inr x) intake) message_callback s =
     (Inr (Produced x), s\<lparr>created := created s @ [JDict [(''type'', JStr ''message'')]]\<rparr>)"
  unfolding message_callback_def
  by (subst route_payload_callback[where ev = "JDict [(''type'', JStr ''message'')]"])
    (simp_all add: mock_create)


subsection \<open>The parameters of a message\<close>

lemma api_call_calls: "calls (snd (api_call env c s)) = calls s @ [c]"
  by (simp add: api_call_def split: prod.splits)

lemma calls_logger: "calls (logger l m s) = calls s"
  by (simp add: logger_def)

lemma send_message_unlinked:
  "send_message env body target None s =
     api_call env
       \<lparr>operation = ''chat.postMessage'', http_verb = POST,
        args = [''channel'' \<mapsto> target, ''text'' \<mapsto> body,
                ''username'' \<mapsto> JStr (bot_name (conn s)),
                ''icon_emoji'' \<mapsto> JStr (icon_emoji (conn s))]\<rparr>
       (logger DEBUG ''Responding with: '%s' in room  %s.'' s)"
  by (simp add: send_message_def)

lemma send_message_linked:
  assumes "raw_event le = JDict kvs"
  shows "send_message env body target (Some le) s =
     api_call env
       \<lparr>operation = ''chat.postMessage'', http_verb = POST,
        args =
          (case map_of kvs ''thread_ts'' of
             Some ts \<Rightarrow>
               if of_opt (event_id le) \<noteq> ts
               then [''channel'' \<mapsto> target, ''text'' \<mapsto> body,
                     ''username'' \<mapsto> JStr (bot_name (conn s)),
                     ''icon_emoji'' \<mapsto> JStr (icon_emoji (conn s)), ''thread_ts'' \<mapsto> ts]
               else [''channel'' \<mapsto> target, ''text'' \<mapsto> body,
                     ''username'' \<mapsto> JStr (bot_name (conn s)),
                     ''icon_emoji'' \<mapsto> JStr (icon_emoji (conn s))]
           | None \<Rightarrow>
               if start_thread (conn s)
               then [''channel'' \<mapsto> target, ''text'' \<mapsto> body,
                     ''username'' \<mapsto> JStr (bot_name (conn s)),
                     ''icon_emoji'' \<mapsto> JStr (icon_emoji (conn s)),
                     ''thread_ts'' \<mapsto> of_opt (event_id le)]
               else [''channel'' \<mapsto> target, ''text'' \<mapsto> body,
                     ''username'' \<mapsto> JStr (bot_name (conn s)),
                     ''icon_emoji'' \<mapsto> JStr (icon_emoji (conn s))])\<rparr>
       (logger DEBUG ''Responding with: '%s' in room  %s.'' s)"
  using assms by (cases "map_of kvs ''thread_ts''") (simp_all add: send_message_def)

section \<open>The claims\<close>

subsection \<open>C1: a list of events is forwarded element by element\<close>

text \<open>
  Claim C1 wants every element of a list forwarded on its own, in order, and never the
  list itself. The loop of the source passes \<^verbatim>\<open>event\<close>, the list, where it means
  \<^verbatim>\<open>e\<close>, the element: when the Event Creator returns the list of \<open>first\<close> and
  \<open>second\<close>, \<^verbatim>\<open>opsdroid.parse\<close> is called twice, each time with the whole list.
\<close>

theorem slack_event_handler_forwards_whole_list:
  "forwarded (snd (slack_event_handler
                    (mock_env (mock_api []) (Inr (PyList [''first'', ''second''])) None)
                    (json_request message_callback) (fresh test_connector))) =
     [PyList [''first'', ''second''], PyList [''first'', ''second'']]"
  by (simp add: slack_event_handler_routed[OF decode_json_request message_callback_routed]
      mock_forward logger_def fresh_def)

subsection \<open>C2: the thread of a message\<close>

text \<open>
  Claim C2, amended. \<^verbatim>\<open>_send_message\<close> issues one \<^verbatim>\<open>chat.postMessage\<close>. With no linked
  event the call has no \<^verbatim>\<open>thread_ts\<close>. With a linked event whose raw payload is a dict:
  if the payload has a \<^verbatim>\<open>thread_ts\<close> and the linked event's id differs from it, the
  call's \<^verbatim>\<open>thread_ts\<close> is that marker; if the payload has no \<^verbatim>\<open>thread_ts\<close> and
  \<^verbatim>\<open>start_thread\<close> is set, it is the linked event's id; in every other case the call
  has no \<^verbatim>\<open>thread_ts\<close>.
\<close>

theorem send_message_thread_ts:
  assumes "linked_event = None \<and> expected = None
     \<or> (\<exists>le kvs. linked_event = Some le \<and> raw_event le = JDict kvs \<and>
           expected =
             (case map_of kvs ''thread_ts'' of
                Some ts \<Rightarrow> if of_opt (event_id le) \<noteq> ts then Some ts else None
              | None \<Rightarrow> if start_thread (conn s) then Some (of_opt (event_id le)) else None))"
  shows "\<exists>data. calls (snd (send_message env body target linked_event s)) =
                  calls s @ [\<lparr>operation = ''chat.postMessage'', http_verb = POST, args = data\<rparr>]
                \<and> data ''thread_ts'' = expected"
  using assms
proof (elim disjE conjE exE)
  assume "linked_event = None" and "expected = None"
  then show ?thesis
    by (simp add: send_message_unlinked api_call_calls calls_logger)
next
  fix le kvs
  assume l: "linked_event = Some le" and r: "raw_event le = JDict kvs"
    and e: "expected =
             (case map_of kvs ''thread_ts'' of
                Some ts \<Rightarrow> if of_opt (event_id le) \<noteq> ts then Some ts else None
              | None \<Rightarrow> if start_thread (conn s) then Some (of_opt (event_id le)) else None)"
  show ?thesis
    unfolding l e send_message_linked[OF r]
    by (cases "map_of kvs ''thread_ts''") (simp_all add: api_call_calls calls_logger)
qed

text \<open>
  The reply of \<^verbatim>\<open>test_send_message_inside_thread\<close>: the linked event carries the
  marker of its thread and has no id of its own, and the call carries that marker.
\<close>

theorem send_message_thread_ts_witness:
  "raw_event thread_reply = JDict [(''thread_ts'', JStr ''1582838099.000600'')]
   \<and> (\<exists>data. calls (snd (send_message posting_env (JStr ''test'') (JStr ''room'')
                            (Some thread_reply) (fresh test_connector))) =
                 calls (fresh test_connector) @
                 [\<lparr>operation = ''chat.postMessage'', http_verb = POST, args = data\<rparr>]
               \<and> data ''thread_ts'' = Some (JStr ''1582838099.000600''))"
proof -
  have raw: "raw_event thread_reply = JDict [(''thread_ts'', JStr ''1582838099.000600'')]"
    by (simp add: thread_reply_def)
  have differs: "of_opt (event_id thread_reply) \<noteq> JStr ''1582838099.000600''"
    by (simp add: thread_reply_def of_opt_def)
  have "\<exists>data. calls (snd (send_message posting_env (JStr ''test'') (JStr ''room'')
                            (Some thread_reply) (fresh test_connector))) =
                 calls (fresh test_connector) @
                 [\<lparr>operation = ''chat.postMessage'', http_verb = POST, args = data\<rparr>]
               \<and> data ''thread_ts'' = Some (JStr ''1582838099.000600'')"
  proof (rule send_message_thread_ts)
    show "Some thread_reply = None \<and> Some (JStr ''1582838099.000600'') = None
       \<or> (\<exists>le kvs. Some thread_reply = Some le \<and> raw_event le = JDict kvs \<and>
             Some (JStr ''1582838099.000600'') =
               (case map_of kvs ''thread_ts'' of
                  Some ts \<Rightarrow> if of_opt (event_id le) \<noteq> ts then Some ts else None
                | None \<Rightarrow>
                    if start_thread (conn (fresh test_connector))
                    then Some (of_opt (event_id le)) else None))"
      using raw differs by simp
  qed
  with raw show ?thesis by (rule conjI)
qed

text \<open>
  Claim C2 as stated fails: with \<^verbatim>\<open>start_thread\<close> set and a linked event that is the
  root of its thread (its id is its own \<^verbatim>\<open>thread_ts\<close>), the claim's second case asks
  for the linked event's id, and the call has no \<^verbatim>\<open>thread_ts\<close>.
\<close>

theorem send_message_root_unthreaded:
  "start_thread (conn (fresh (test_connector\<lparr>start_thread := True\<rparr>)))
   \<and> map_of [(''thread_ts'', JStr ''1582838099.000600'')] ''thread_ts'' = Some (of_opt (event_id thread_root))
   \<and> map (\<lambda>c. (operation c, args c ''thread_ts''))
        (calls (snd (send_message posting_env (JStr ''test'') (JStr ''room'') (Some thread_root)
                      (fresh (test_connector\<lparr>start_thread := True\<rparr>))))) =
       [(''chat.postMessage'', None)]"
proof -
  have raw: "raw_event thread_root = JDict [(''thread_ts'', JStr ''1582838099.000600'')]"
    by (simp add: thread_root_def)
  have same: "of_opt (event_id thread_root) = JStr ''1582838099.000600''"
    by (simp add: thread_root_def of_opt_def)
  show ?thesis
    by (simp add: send_message_linked[OF raw] same api_call_calls calls_logger fresh_def)
qed

subsection \<open>C3: the acknowledgement\<close>




subsection \<open>C4: failures of the handshake\<close>

text \<open>
  Claim C4, amended. A \<^verbatim>\<open>SlackApiError\<close> raised in the \<^verbatim>\<open>try\<close> block of
  \<^verbatim>\<open>connect\<close> never leaves the method: \<^verbatim>\<open>connect\<close> returns normally, its last log
  line is the error, and no route has been registered. An exception of any other class
  is raised to the caller, again with no route registered.
\<close>

theorem connect_catches_SlackApiError:
  "fst (connect env s) \<noteq> Inl (SlackApiError m)
   \<and> (fst (connect_try env (logger INFO ''Connecting to Slack.'' s)) = Inl (SlackApiError m) \<longrightarrow>
        fst (connect env s) = Inr ()
        \<and> last (logged (snd (connect env s))) =
            (ERROR,
             ''Unable to connect to Slack due to %s.The Slack Connector will not be available.'')
        \<and> routes (snd (connect env s)) = routes s)
   \<and> (fst (connect_try env (logger INFO ''Connecting to Slack.'' s)) = Inl e
        \<and> (\<forall>m'. e \<noteq> SlackApiError m') \<longrightarrow>
        fst (connect env s) = Inl e \<and> routes (snd (connect env s)) = routes s)"
proof -
  obtain r0 s0 where t: "connect_try env (logger INFO ''Connecting to Slack.'' s) = (r0, s0)"
    by (cases "connect_try env (logger INFO ''Connecting to Slack.'' s)")
  have unchanged: "routes s0 = routes s" if "r0 = Inl e'" for e'
    using connect_try_fails[of env "logger INFO ''Connecting to Slack.'' s" e' s0] t that
    by (simp add: routes_logger)
  have caught: "connect env s =
      (Inr (), logger ERROR
        ''Unable to connect to Slack due to %s.The Slack Connector will not be available.'' s0)"
    if "r0 = Inl (SlackApiError m')" for m'
    using t that by (simp add: connect_def)
  have passed: "connect env s = (r0, s0)" if "\<forall>m'. r0 \<noteq> Inl (SlackApiError m')"
    using t that by (auto simp: connect_def split: sum.splits error.splits)
  have escapes: "fst (connect env s) \<noteq> Inl (SlackApiError m)"
  proof (cases "\<exists>m'. r0 = Inl (SlackApiError m')")
    case True
    then show ?thesis using caught by auto
  next
    case False
    then show ?thesis using passed by auto
  qed
  have a: "fst (connect env s) = Inr ()
        \<and> last (logged (snd (connect env s))) =
            (ERROR,
             ''Unable to connect to Slack due to %s.The Slack Connector will not be available.'')
        \<and> routes (snd (connect env s)) = routes s"
    if "r0 = Inl (SlackApiError m)"
    using caught[OF that] unchanged[OF that] by (simp add: logger_def)
  have b: "fst (connect env s) = Inl e \<and> routes (snd (connect env s)) = routes s"
    if "r0 = Inl e" and "\<forall>m'. e \<noteq> SlackApiError m'"
  proof -
    from that have "\<forall>m'. r0 \<noteq> Inl (SlackApiError m')" by auto
    from passed[OF this] that(1) unchanged[OF that(1)] show ?thesis by simp
  qed
  from escapes a b t show ?thesis by simp
qed

text \<open>
  The platform of \<^verbatim>\<open>test_connect_failure\<close>, which answers no call: \<^verbatim>\<open>auth.test\<close>
  fails, \<^verbatim>\<open>connect\<close> logs the error and returns.
\<close>

theorem connect_catches_SlackApiError_witness:
  "fst (connect_try (mock_env (mock_api []) (Inr PyNone) None)
          (logger INFO ''Connecting to Slack.'' (fresh test_connector))) =
     Inl (SlackApiError ''The request to the Slack API failed.'')
   \<and> fst (connect (mock_env (mock_api []) (Inr PyNone) None) (fresh test_connector)) = Inr ()
   \<and> last (logged (snd (connect (mock_env (mock_api []) (Inr PyNone) None) (fresh test_connector)))) =
       (ERROR, ''Unable to connect to Slack due to %s.The Slack Connector will not be available.'')
   \<and> routes (snd (connect (mock_env (mock_api []) (Inr PyNone) None) (fresh test_connector))) = []"
proof -
  have fails:
    "fst (connect_try (mock_env (mock_api []) (Inr PyNone) None)
            (logger INFO ''Connecting to Slack.'' (fresh test_connector))) =
     Inl (SlackApiError ''The request to the Slack API failed.'')"
    by (simp add: connect_try_def and_then_def assign_auth_info_def mock_api_call mock_api_def)
  have none: "routes (fresh test_connector) = []"
    by (simp add: fresh_def)
  from connect_catches_SlackApiError[of "mock_env (mock_api []) (Inr PyNone) None"
      "fresh test_connector" "''The request to the Slack API failed.''"] fails none
  show ?thesis by simp
qed

text \<open>
  Claim C4 as stated fails: when the profile \<^verbatim>\<open>users.info\<close> returns has no
  \<^verbatim>\<open>bot_id\<close>, the \<^verbatim>\<open>KeyError\<close> of the bot-id extraction leaves \<^verbatim>\<open>connect\<close>.
\<close>

theorem connect_raises_KeyError:
  "fst (connect
          (mock_env (mock_api [(''auth.test'', Inr auth_test_response),
                               (''users.info'', Inr human_info_response)])
             (Inr PyNone) None)
          (fresh test_connector)) = Inl (KeyError ''bot_id'')"
  by (simp add: connect_def connect_try_def and_then_def assign_auth_info_def
      assign_user_info_def assign_bot_id_def mock_api_call mock_api_def auth_test_response_def
      human_info_response_def)

subsection \<open>C5: mentions become names\<close>

text \<open>
  Claim C5 wants a mention with a display hint replaced as a mention without one is.
  The pattern of the source matches both forms, but the replacement looks for the
  form without a hint only: with the user cached as in \<^verbatim>\<open>test_replace_usernames\<close>,
  the hinted mention is found and stays in the text, where the plain mention becomes
  the name.
\<close>

theorem replace_usernames_keeps_hinted_mention:
  "findall_mentions ''hello <@U01NK1K9L68|bob>'' = [''U01NK1K9L68'']
   \<and> replace_usernames (mock_env (mock_api []) (Inr PyNone) None) ''hello <@U01NK1K9L68|bob>''
       (fresh caching_connector) =
     (Inr ''hello <@U01NK1K9L68|bob>'', fresh caching_connector)
   \<and> replace_usernames (mock_env (mock_api []) (Inr PyNone) None) ''hello <@U01NK1K9L68>''
       (fresh caching_connector) =
     (Inr ''hello Test User'', fresh caching_connector)"
proof -
  have hinted: "findall_mentions ''hello <@U01NK1K9L68|bob>'' = [''U01NK1K9L68'']"
    by (simp add: match_mention_def hint_end_def is_id_char_def)
  have plain: "findall_mentions ''hello <@U01NK1K9L68>'' = [''U01NK1K9L68'']"
    by (simp add: match_mention_def hint_end_def is_id_char_def)
  have hit: "lookup_username env ''U01NK1K9L68'' (fresh caching_connector) =
     (Inr (JDict [(''name'', JStr ''Test User'')]), fresh caching_connector)"
    for env :: "(unit, string) env"
    by (rule lookup_username_hit) (simp add: fresh_def caching_connector_def)
  have kept: "replace_usernames (mock_env (mock_api []) (Inr PyNone) None)
       ''hello <@U01NK1K9L68|bob>'' (fresh caching_connector) =
     (Inr ''hello <@U01NK1K9L68|bob>'', fresh caching_connector)"
    unfolding replace_usernames_def hinted by (simp add: hit)
  have replaced: "replace_usernames (mock_env (mock_api []) (Inr PyNone) None)
       ''hello <@U01NK1K9L68>'' (fresh caching_connector) =
     (Inr ''hello Test User'', fresh caching_connector)"
    unfolding replace_usernames_def plain by (simp add: hit)
  show ?thesis
    by (intro conjI hinted kept replaced)
qed

subsection \<open>C6: the second lookup is a cache hit\<close>

text \<open>
  Claim C6. Once \<^verbatim>\<open>lookup_username\<close> has returned a dict for an identifier, every
  later \<^verbatim>\<open>lookup_username\<close> of that identifier, after any sequence of operations of
  the connector and against any platform, returns the same value and leaves the whole
  state as it found it: in particular it issues no platform call.
\<close>

theorem lookup_username_cache_hit:
  assumes "lookup_username env userid s = (Inr profile, s1)" and "is_dict profile"
  shows "lookup_username env' userid (run env' xs s1) = (Inr profile, run env' xs s1)"
proof -
  from assms have "known_users (conn s1) userid = Some profile"
    by (rule lookup_username_caches)
  moreover have "known_users (conn s1) \<subseteq>\<^sub>m known_users (conn (run env' xs s1))"
    by (rule run_mono)
  ultimately have "known_users (conn (run env' xs s1)) userid = Some profile"
    by (auto simp: map_le_def dom_def)
  then show ?thesis by (rule lookup_username_hit)
qed

text \<open>
  The lookup of \<^verbatim>\<open>test_lookup_username_user_not_present\<close>, then two other
  operations, then the same lookup against a platform that answers nothing.
\<close>

theorem lookup_username_cache_hit_witness:
  "lookup_username (mock_env (mock_api [(''users.info'', Inr users_info_response)]) (Inr PyNone) None)
     ''U01NK1K9L68'' (fresh test_connector) =
   (Inr (JDict [(''id'', JStr ''U01NK1K9L68''), (''name'', JStr ''Test User'')]),
    snd (lookup_username
          (mock_env (mock_api [(''users.info'', Inr users_info_response)]) (Inr PyNone) None)
          ''U01NK1K9L68'' (fresh test_connector)))
   \<and> is_dict (JDict [(''id'', JStr ''U01NK1K9L68''), (''name'', JStr ''Test User'')])
   \<and> lookup_username (mock_env (mock_api []) (Inr PyNone) None) ''U01NK1K9L68''
       (run (mock_env (mock_api []) (Inr PyNone) None)
          [Send (JoinRoom (JStr ''room'')), LookupUsername ''U02'']
          (snd (lookup_username
                 (mock_env (mock_api [(''users.info'', Inr users_info_response)]) (Inr PyNone) None)
                 ''U01NK1K9L68'' (fresh test_connector)))) =
     (Inr (JDict [(''id'', JStr ''U01NK1K9L68''), (''name'', JStr ''Test User'')]),
      run (mock_env (mock_api []) (Inr PyNone) None)
        [Send (JoinRoom (JStr ''room'')), LookupUsername ''U02'']
        (snd (lookup_username
               (mock_env (mock_api [(''users.info'', Inr users_info_response)]) (Inr PyNone) None)
               ''U01NK1K9L68'' (fresh test_connector))))"
proof -
  have first:
    "lookup_username (mock_env (mock_api [(''users.info'', Inr users_info_response)]) (Inr PyNone) None)
       ''U01NK1K9L68'' (fresh test_connector) =
     (Inr (JDict [(''id'', JStr ''U01NK1K9L68''), (''name'', JStr ''Test User'')]),
      snd (lookup_username
            (mock_env (mock_api [(''users.info'', Inr users_info_response)]) (Inr PyNone) None)
            ''U01NK1K9L68'' (fresh test_connector)))"
    by (simp add: lookup_username_def mock_env_def mock_api_def fresh_def test_connector_def
        users_info_response_def api_call_def)
  have dict: "is_dict (JDict [(''id'', JStr ''U01NK1K9L68''), (''name'', JStr ''Test User'')])"
    by simp
  show ?thesis
    by (intro conjI first dict lookup_username_cache_hit[OF first dict])
qed

subsection \<open>C7: a reaction the platform does not know\<close>

text \<open>
  Claim C7. When the call of \<^verbatim>\<open>reactions.add\<close> raises a \<^verbatim>\<open>SlackApiError\<close> whose
  text contains \<^verbatim>\<open>invalid_name\<close>, \<^verbatim>\<open>send_reaction\<close> logs a warning and returns
  \<^verbatim>\<open>None\<close>; when the text does not contain it, \<^verbatim>\<open>send_reaction\<close> raises the error
  and logs no warning.
\<close>

theorem send_reaction_invalid_name:
  assumes "web env
             \<lparr>operation = ''reactions.add'', http_verb = POST,
              args = [''name'' \<mapsto> JStr (str_replace '':'' [] (demojize env emoji)),
                      ''channel'' \<mapsto> target, ''timestamp'' \<mapsto> of_opt (event_id le)]\<rparr>
             (world s) = (Inl (SlackApiError m), w)"
  shows "fst (send_reaction env emoji target (Some le) s) =
           (if str_contains ''invalid_name'' m then Inr JNull else Inl (SlackApiError m))
         \<and> logged (snd (send_reaction env emoji target (Some le) s)) =
           logged s @ (DEBUG, ''Reacting with: %s.'') #
             (if str_contains ''invalid_name'' m
              then [(WARNING, ''Slack does not support the emoji %s.'')] else [])"
  using assms by (simp add: send_reaction_def api_call_def logger_def Let_def)

text \<open>
  The reaction of \<^verbatim>\<open>test_send_reaction_invalid_name\<close>.
\<close>

theorem send_reaction_invalid_name_witness:
  "web rejecting_env
     \<lparr>operation = ''reactions.add'', http_verb = POST,
      args = [''name'' \<mapsto> JStr (str_replace '':'' [] (demojize rejecting_env ''NOT_EMOJI'')),
              ''channel'' \<mapsto> JStr ''room'',
              ''timestamp'' \<mapsto> of_opt (event_id linked_message)]\<rparr>
     (world (fresh test_connector)) = (Inl (SlackApiError invalid_name_text), ())
   \<and> str_contains ''invalid_name'' invalid_name_text
   \<and> fst (send_reaction rejecting_env ''NOT_EMOJI'' (JStr ''room'') (Some linked_message)
            (fresh test_connector)) = Inr JNull
   \<and> logged (snd (send_reaction rejecting_env ''NOT_EMOJI'' (JStr ''room'') (Some linked_message)
                    (fresh test_connector))) =
       [(DEBUG, ''Reacting with: %s.''), (WARNING, ''Slack does not support the emoji %s.'')]"
proof -
  have fails:
    "web rejecting_env
       \<lparr>operation = ''reactions.add'', http_verb = POST,
        args = [''name'' \<mapsto> JStr (str_replace '':'' [] (demojize rejecting_env ''NOT_EMOJI'')),
                ''channel'' \<mapsto> JStr ''room'',
                ''timestamp'' \<mapsto> of_opt (event_id linked_message)]\<rparr>
       (world (fresh test_connector)) = (Inl (SlackApiError invalid_name_text), ())"
    by (simp add: rejecting_env_def mock_env_def mock_api_def)
  have inv: "str_contains ''invalid_name'' invalid_name_text"
    by (simp add: invalid_name_text_def)
  have quiet: "logged (fresh test_connector) = []"
    by (simp add: fresh_def)
  note r = send_reaction_invalid_name[OF fails]
  from r inv have returned:
    "fst (send_reaction rejecting_env ''NOT_EMOJI'' (JStr ''room'') (Some linked_message)
            (fresh test_connector)) = Inr JNull"
    by simp
  from r inv have warned:
    "logged (snd (send_reaction rejecting_env ''NOT_EMOJI'' (JStr ''room'') (Some linked_message)
                    (fresh test_connector))) =
       [(DEBUG, ''Reacting with: %s.''), (WARNING, ''Slack does not support the emoji %s.'')]"
    by (simp add: quiet)
  show ?thesis
    by (intro conjI fails inv returned warned)
qed

subsection \<open>C8: the verification challenge\<close>

text \<open>
  Claim C8. A payload of type \<^verbatim>\<open>url_verification\<close> with challenge \<open>c\<close> is answered
  with the JSON body \<^verbatim>\<open>{"challenge": c}\<close>, and the state is untouched: the Event
  Creator was not called and nothing was forwarded to the host.
\<close>

theorem url_verification_challenge:
  assumes "decode_payload request = Inr (JDict kvs)"
    and "map_of kvs ''type'' = Some (JStr ''url_verification'')"
    and "map_of kvs ''challenge'' = Some c"
  shows "slack_event_handler env request s = (Inr (JsonResponse (JDict [(''challenge'', c)])), s)"
  using assms by (simp add: slack_event_handler_def route_payload_def)

text \<open>
  The payload \<^verbatim>\<open>{"type": "url_verification", "challenge": "abc"}\<close>.
\<close>

theorem url_verification_challenge_witness:
  "decode_payload (json_request (JDict [(''type'', JStr ''url_verification''), (''challenge'', JStr ''abc'')])) =
     Inr (JDict [(''type'', JStr ''url_verification''), (''challenge'', JStr ''abc'')])
   \<and> map_of [(''type'', JStr ''url_verification''), (''challenge'', JStr ''abc'')] ''type'' = Some (JStr ''url_verification'')
   \<and> map_of [(''type'', JStr ''url_verification''), (''challenge'', JStr ''abc'')] ''challenge'' = Some (JStr ''abc'')
   \<and> slack_event_handler (mock_env (mock_api []) (Inr (PyEvent ''message'')) None)
        (json_request (JDict [(''type'', JStr ''url_verification''), (''challenge'', JStr ''abc'')]))
        (fresh test_connector) =
       (Inr (JsonResponse (JDict [(''challenge'', JStr ''abc'')])), fresh test_connector)"
proof -
  have d: "decode_payload (json_request (JDict [(''type'', JStr ''url_verification''), (''challenge'', JStr ''abc'')])) =
     Inr (JDict [(''type'', JStr ''url_verification''), (''challenge'', JStr ''abc'')])"
    by (simp add: decode_payload_def json_request_def)
  have t: "map_of [(''type'', JStr ''url_verification''), (''challenge'', JStr ''abc'')] ''type'' = Some (JStr ''url_verification'')"
    by simp
  have c: "map_of [(''type'', JStr ''url_verification''), (''challenge'', JStr ''abc'')] ''challenge'' = Some (JStr ''abc'')"
    by simp
  show ?thesis
    by (intro conjI d t c url_verification_challenge[OF d t c])
qed

subsection \<open>C9: the cache is append-only\<close>



subsection \<open>C10: who writes the state\<close>

text \<open>
  Claim C10. Each of the twelve outbound handlers leaves the connector as it found it,
  and so do the webhook handler, \<^verbatim>\<open>disconnect\<close> and \<^verbatim>\<open>listen\<close>. \<^verbatim>\<open>connect\<close>
  changes \<^verbatim>\<open>auth_info\<close>, \<^verbatim>\<open>user_info\<close> and \<^verbatim>\<open>bot_id\<close> at most;
  \<^verbatim>\<open>lookup_username\<close>, and \<^verbatim>\<open>replace_usernames\<close> through it, change
  \<^verbatim>\<open>known_users\<close> at most.
\<close>

theorem state_frame:
  "conn (snd (send_message env body target linked_event s)) = conn s
   \<and> conn (snd (edit_message env body target ts s)) = conn s
   \<and> conn (snd (send_blocks env blocks target s)) = conn s
   \<and> conn (snd (edit_blocks env blocks target ts s)) = conn s
   \<and> conn (snd (send_reaction env emoji target linked_event s)) = conn s
   \<and> conn (snd (send_room_creation env room s)) = conn s
   \<and> conn (snd (send_room_name_set env room target s)) = conn s
   \<and> conn (snd (send_join_room env target s)) = conn s
   \<and> conn (snd (send_user_invitation env user_id target s)) = conn s
   \<and> conn (snd (send_room_description env description target s)) = conn s
   \<and> conn (snd (send_pin_message env target linked_event s)) = conn s
   \<and> conn (snd (send_unpin_message env target linked_event s)) = conn s
   \<and> conn (snd (slack_event_handler env request s)) = conn s
   \<and> conn (snd (disconnect env s)) = conn s
   \<and> conn (snd (listen env s)) = conn s
   \<and> conn (snd (connect env s)) =
       (conn s)\<lparr>auth_info := auth_info (conn (snd (connect env s))),
                 user_info := user_info (conn (snd (connect env s))),
                 bot_id := bot_id (conn (snd (connect env s)))\<rparr>
   \<and> conn (snd (lookup_username env userid s)) =
       (conn s)\<lparr>known_users := known_users (conn (snd (lookup_username env userid s)))\<rparr>
   \<and> conn (snd (replace_usernames env message s)) =
       (conn s)\<lparr>known_users := known_users (conn (snd (replace_usernames env message s)))\<rparr>"
  unfolding replace_usernames_def
  by (intro conjI send_message_conn[OF surjective_pairing] edit_message_conn[OF surjective_pairing]
      send_blocks_conn[OF surjective_pairing] edit_blocks_conn[OF surjective_pairing]
      send_reaction_conn[OF surjective_pairing] send_room_creation_conn[OF surjective_pairing]
      send_room_name_set_conn[OF surjective_pairing] send_join_room_conn[OF surjective_pairing]
      send_user_invitation_conn[OF surjective_pairing]
      send_room_description_conn[OF surjective_pairing]
      send_pin_message_conn[OF surjective_pairing] send_unpin_message_conn[OF surjective_pairing]
      slack_event_handler_conn[OF surjective_pairing] connect_others[OF surjective_pairing]
      lookup_username_others[OF surjective_pairing] replace_each_others[OF surjective_pairing])
    (simp_all add: disconnect_def listen_def)

end
